theory Spec2Isabelle
  imports Complex_Main
begin

section \<open>Python values and failures\<close>

text \<open>
  The two modules are Python over numpy. Numbers (Python ints, floats and bools, numpy
  float arrays) are modelled as \<open>real\<close> and \<open>real list\<close>: the development is about
  index arithmetic, control flow and aliasing, and reads every float operation as the exact
  operation on the reals. Every \<open>raise\<close> and every failing subscript of the source is a
  branch returning \<open>Inl\<close> of the exception raised.
\<close>

datatype py_error = KeyError | IndexError | ValueError | TypeError | ZeroDivisionError

text \<open>\<open>int(v)\<close> on a float: truncation towards zero.\<close>

definition py_int :: "real \<Rightarrow> int" where
  "py_int v = (if 0 \<le> v then \<lfloor>v\<rfloor> else \<lceil>v\<rceil>)"

text \<open>Truth value of a Python number.\<close>

definition truthy :: "real \<Rightarrow> bool" where
  "truthy v = (v \<noteq> 0)"

text \<open>\<open>xs[i]\<close> on a list or 1-d array with a non-negative index.\<close>

definition py_nth :: "'a list \<Rightarrow> nat \<Rightarrow> py_error + 'a" where
  "py_nth xs i = (if i < length xs then Inr (xs ! i) else Inl IndexError)"

text \<open>\<open>a[mask]\<close>: numpy boolean-array indexing; the mask must be as long as the array.\<close>

definition bool_index :: "'a list \<Rightarrow> bool list \<Rightarrow> py_error + 'a list" where
  "bool_index a msk =
     (if length msk = length a
      then Inr (map fst (filter snd (zip a msk)))
      else Inl IndexError)"

section \<open>The constraint codes\<close>

text \<open>
  \<open>CFREE = 0\<close> ... \<open>CIGNORED = 7\<close> of specfitfunctions.py, and the list \<open>CONS\<close> of
  \<open>Specfit.estimate\<close> that names them: \<open>C_FREE\<close> stands for the string \<open>'FREE'\<close>, and so on.
\<close>

datatype ccode =
  C_FREE | C_POSITIVE | C_QUOTED | C_FIXED | C_FACTOR | C_DELTA | C_SUM | C_IGNORE

definition CONS :: "ccode list" where
  "CONS = [C_FREE, C_POSITIVE, C_QUOTED, C_FIXED, C_FACTOR, C_DELTA, C_SUM, C_IGNORE]"

definition CFREE :: real where "CFREE = 0"
definition CPOSITIVE :: real where "CPOSITIVE = 1"
definition CQUOTED :: real where "CQUOTED = 2"
definition CFIXED :: real where "CFIXED = 3"
definition CFACTOR :: real where "CFACTOR = 4"
definition CDELTA :: real where "CDELTA = 5"
definition CSUM_code :: real where "CSUM_code = 6"
definition CIGNORED :: real where "CIGNORED = 7"

text \<open>
  \<open>CONS[int(c)]\<close>: the subscript is a Python int, so \<open>-8 .. -1\<close> count from the end and
  anything else outside \<open>0 .. 7\<close> raises IndexError.
\<close>

definition cons_name :: "real \<Rightarrow> py_error + ccode" where
  "cons_name c =
     (let k = py_int c; j = (if k < 0 then 8 + k else k)
      in if 0 \<le> j \<and> j < 8 then Inr (CONS ! nat j) else Inl IndexError)"

section \<open>The fit driver: class Specfit\<close>

text \<open>
  Callables stored in the registries are kept as references: the driver's own methods by
  name, anything registered from outside by a label.
\<close>

datatype fn_ref =
    Bkg_none | Bkg_constant | Bkg_linear | Bkg_internal
  | Estimate_builtin_bkg | Myderiv | Ext string

text \<open>\<open>[function, parameters, estimate, configure, derivative]\<close>, as \<open>addtheory\<close> stores it.\<close>

record theory_entry =
  te_function :: fn_ref
  te_parameters :: "string list"
  te_estimate :: "fn_ref option"
  te_configure :: "fn_ref option"
  te_derivative :: "fn_ref option"

text \<open>\<open>[function, parameters, estimate]\<close>, as \<open>addbackground\<close> stores it.\<close>

record bkg_entry =
  be_function :: fn_ref
  be_parameters :: "string list"
  be_estimate :: "fn_ref option"

text \<open>The dictionary \<open>fitconfig\<close> with the nine keys \<open>__init__\<close> gives it.\<close>

record fitconfig =
  fc_AutoFwhm :: real
  fc_FwhmPoints :: real
  fc_AutoScaling :: real
  fc_Yscaling :: "real option"
  fc_Sensitivity :: real
  fc_ResidualsFlag :: real
  fc_McaMode :: real
  fc_fitbkg :: string
  fc_fittheory :: "string option"

text \<open>
  One entry of \<open>paramlist\<close>. \<open>xmin\<close> and \<open>xmax\<close> are present in the entries \<open>estimate\<close>
  builds and absent from those \<open>mcafit\<close> appends.
\<close>

record param =
  p_name :: string
  p_estimation :: real
  p_group :: nat
  p_code :: ccode
  p_cons1 :: real
  p_cons2 :: real
  p_fitresult :: real
  p_sigma :: real
  p_xmin :: "real option"
  p_xmax :: "real option"

text \<open>
  The attributes of a \<open>Specfit\<close> object. An attribute that \<open>__init__\<close> does not create
  (\<open>theoryfun\<close>, \<open>modelderiv\<close>, \<open>bkgfun\<close>, \<open>state\<close>) is \<open>None\<close> until a method sets it;
  \<open>modelderiv\<close>, once set, holds Python's \<open>None\<close> or the method \<open>myderiv\<close>.
\<close>

record specfit =
  fitconfig :: fitconfig
  theorydict :: "(string \<times> theory_entry) list"
  bkgdict :: "(string \<times> bkg_entry) list"
  theoryfun :: "fn_ref option"
  modelderiv :: "fn_ref option option"
  bkgfun :: "fn_ref option"
  xdata0 :: "real list"
  ydata0 :: "real list"
  sigmay0 :: "real list"
  xdata :: "real list"
  ydata :: "real list"
  sigmay :: "real list"
  final_theory :: "string list"
  paramlist :: "param list"
  state :: "string option"
  chisq :: "real option"

subsection \<open>setdata\<close>

text \<open>
  The method assigns its attributes one after the other, so a failure part of the way
  leaves the assignments made so far in place: the model returns the outcome together
  with the object as the call left it. Nowhere does it compare the lengths of \<open>x\<close>,
  \<open>y\<close> and \<open>sigmay\<close>; the only operation that can fail is the boolean-mask subscript
  of the window, which is reached only when \<open>xmin\<close> or \<open>xmax\<close> is given.
\<close>

definition setdata ::
  "real list option \<Rightarrow> real list option \<Rightarrow> real list option \<Rightarrow> real option \<Rightarrow> real option
     \<Rightarrow> specfit \<Rightarrow> (py_error + unit) \<times> specfit" where
  "setdata x y sigmay_arg xmin xmax s =
     (case y of
        None \<Rightarrow>
          (Inr (), s\<lparr>xdata0 := [], ydata0 := [], sigmay0 := [],
                     xdata := [], ydata := [], sigmay := []\<rparr>)
      | Some yv \<Rightarrow>
          (let s1 = s\<lparr>ydata0 := yv, ydata := yv\<rparr>;
               xv = (case x of None \<Rightarrow> map real [0..<length yv] | Some xv \<Rightarrow> xv);
               s2 = s1\<lparr>xdata0 := xv, xdata := xv\<rparr>;
               sv = (case sigmay_arg of None \<Rightarrow> map (\<lambda>_. 1) yv | Some sv \<Rightarrow> sv);
               s3 = s2\<lparr>sigmay0 := sv, sigmay := sv\<rparr>
           in if (xmin \<noteq> None \<or> xmax \<noteq> None) \<and> xv \<noteq> []
              then
                (let lo = (case xmin of Some v \<Rightarrow> v | None \<Rightarrow> Min (set xv));
                     hi = (case xmax of Some v \<Rightarrow> v | None \<Rightarrow> Max (set xv));
                     bool_array = map (\<lambda>v. lo \<le> v \<and> v \<le> hi) xv
                 in case bool_index xv bool_array of
                      Inl e \<Rightarrow> (Inl e, s3)
                    | Inr xw \<Rightarrow>
                        (let s4 = s3\<lparr>xdata := xw\<rparr>
                         in case bool_index yv bool_array of
                              Inl e \<Rightarrow> (Inl e, s4)
                            | Inr yw \<Rightarrow>
                                (let s5 = s4\<lparr>ydata := yw\<rparr>
                                 in case bool_index sv bool_array of
                                      Inl e \<Rightarrow> (Inl e, s5)
                                    | Inr sw \<Rightarrow> (Inr (), s5\<lparr>sigmay := sw\<rparr>))))
              else (Inr (), s3)))"

subsection \<open>The constructor\<close>

text \<open>\<open>Specfit()\<close> with every argument at its default.\<close>

definition init_fitconfig :: fitconfig where
  "init_fitconfig =
     \<lparr>fc_AutoFwhm = 0, fc_FwhmPoints = 8, fc_AutoScaling = 0, fc_Yscaling = Some 1,
      fc_Sensitivity = 5/2, fc_ResidualsFlag = 0, fc_McaMode = 0,
      fc_fitbkg = ''No Background'', fc_fittheory = None\<rparr>"

definition init_bkgdict :: "(string \<times> bkg_entry) list" where
  "init_bkgdict =
     [(''No Background'',
         \<lparr>be_function = Bkg_none, be_parameters = [], be_estimate = None\<rparr>),
      (''Constant'',
         \<lparr>be_function = Bkg_constant, be_parameters = [''Constant''],
          be_estimate = Some Estimate_builtin_bkg\<rparr>),
      (''Linear'',
         \<lparr>be_function = Bkg_linear, be_parameters = [''Constant'', ''Slope''],
          be_estimate = Some Estimate_builtin_bkg\<rparr>),
      (''Internal'',
         \<lparr>be_function = Bkg_internal,
          be_parameters = [''Curvature'', ''Iterations'', ''Constant''],
          be_estimate = Some Estimate_builtin_bkg\<rparr>)]"

definition new_specfit :: specfit where
  "new_specfit =
     \<lparr>fitconfig = init_fitconfig, theorydict = [], bkgdict = init_bkgdict,
      theoryfun = None, modelderiv = None, bkgfun = None,
      xdata0 = [], ydata0 = [], sigmay0 = [], xdata = [], ydata = [], sigmay = [],
      final_theory = [], paramlist = [], state = None, chisq = None\<rparr>"

subsection \<open>The registries\<close>

text \<open>
  \<open>theorydict\<close> and \<open>bkgdict\<close> are OrderedDicts: association lists in insertion order,
  where storing under an existing key replaces the value in place.
\<close>

fun dict_set :: "(string \<times> 'v) list \<Rightarrow> string \<Rightarrow> 'v \<Rightarrow> (string \<times> 'v) list" where
  "dict_set [] k v = [(k, v)]"
| "dict_set ((k', v') # d) k v = (if k' = k then (k, v) # d else (k', v') # dict_set d k v)"

definition addtheory ::
  "string \<Rightarrow> fn_ref \<Rightarrow> string list \<Rightarrow> fn_ref option \<Rightarrow> fn_ref option \<Rightarrow> fn_ref option
     \<Rightarrow> specfit \<Rightarrow> specfit" where
  "addtheory theory function parameters estimate configure derivative s =
     s\<lparr>theorydict := dict_set (theorydict s) theory
         \<lparr>te_function = function, te_parameters = parameters, te_estimate = estimate,
          te_configure = configure, te_derivative = derivative\<rparr>\<rparr>"

definition addbackground ::
  "string \<Rightarrow> fn_ref \<Rightarrow> string list \<Rightarrow> fn_ref option \<Rightarrow> specfit \<Rightarrow> specfit" where
  "addbackground background function parameters estimate s =
     s\<lparr>bkgdict := dict_set (bkgdict s) background
         \<lparr>be_function = function, be_parameters = parameters, be_estimate = estimate\<rparr>\<rparr>"

text \<open>
  \<open>settheory\<close>: the test \<open>len(self.theorydict[theory]) > 5\<close> is on a list of exactly five
  items, so it is false and \<open>modelderiv\<close> is set to Python's \<open>None\<close> whenever the name is
  registered. When it is not, the only statement executed is the \<open>raise\<close>.
\<close>

definition theory_entry_len :: nat where
  "theory_entry_len = 5"

definition settheory :: "string \<Rightarrow> specfit \<Rightarrow> (py_error + unit) \<times> specfit" where
  "settheory theory s =
     (case map_of (theorydict s) theory of
        Some entry \<Rightarrow>
          (Inr (),
           s\<lparr>fitconfig := (fitconfig s)\<lparr>fc_fittheory := Some theory\<rparr>,
             theoryfun := Some (te_function entry),
             modelderiv := (if theory_entry_len > 5 then Some (Some Myderiv) else Some None)\<rparr>)
      | None \<Rightarrow> (Inl KeyError, s))"

definition setbackground :: "string \<Rightarrow> specfit \<Rightarrow> (py_error + unit) \<times> specfit" where
  "setbackground theory s =
     (case map_of (bkgdict s) theory of
        Some entry \<Rightarrow>
          (Inr (),
           s\<lparr>fitconfig := (fitconfig s)\<lparr>fc_fitbkg := theory\<rparr>,
             bkgfun := Some (be_function entry)\<rparr>)
      | None \<Rightarrow> (Inl KeyError, s))"

section \<open>The model library: class SpecfitFunctions\<close>

subsection \<open>Dictionaries, references and the shared defaults\<close>

text \<open>
  A Python dict is an association list in insertion order with distinct keys; \<open>d[k]\<close>
  raises KeyError on a missing key and \<open>d[k] = v\<close> is \<open>dict_set\<close>.
\<close>

definition dict_get :: "(string \<times> 'v) list \<Rightarrow> string \<Rightarrow> py_error + 'v" where
  "dict_get d k = (case map_of d k of None \<Rightarrow> Inl KeyError | Some v \<Rightarrow> Inr v)"

text \<open>Sequencing of computations that may raise: the first exception ends the sequence.\<close>

definition pbind :: "py_error + 'a \<Rightarrow> ('a \<Rightarrow> py_error + 'b) \<Rightarrow> py_error + 'b" where
  "pbind m f = (case m of Inl e \<Rightarrow> Inl e | Inr a \<Rightarrow> f a)"

text \<open>
  \<open>SPECFITFUNCTIONS_DEFAULTS\<close>, the module-level dictionary (\<open>True\<close> is 1 and \<open>False\<close>
  is 0, as Python's numbers have it).
\<close>

definition SPECFITFUNCTIONS_DEFAULTS :: "(string \<times> real) list" where
  "SPECFITFUNCTIONS_DEFAULTS =
     [(''NoConstraintsFlag'', 0),
      (''PositiveFwhmFlag'', 1),
      (''PositiveHeightAreaFlag'', 1),
      (''SameFwhmFlag'', 0),
      (''QuotedPositionFlag'', 0),
      (''QuotedEtaFlag'', 0),
      (''Yscaling'', 1),
      (''Xscaling'', 1),
      (''FwhmPoints'', 8),
      (''AutoFwhm'', 0),
      (''Sensitivity'', 5/2),
      (''ForcePeakPresence'', 0),
      (''HypermetTails'', 15),
      (''QuotedFwhmFlag'', 0),
      (''MaxFwhm2InputRatio'', 3/2),
      (''MinFwhm2InputRatio'', 2/5),
      (''MinGaussArea4ShortTail'', 50000),
      (''InitialShortTailAreaRatio'', 5/100),
      (''MaxShortTailAreaRatio'', 1/10),
      (''MinShortTailAreaRatio'', 1/1000),
      (''InitialShortTailSlopeRatio'', 7/10),
      (''MaxShortTailSlopeRatio'', 2),
      (''MinShortTailSlopeRatio'', 1/2),
      (''MinGaussArea4LongTail'', 1000),
      (''InitialLongTailAreaRatio'', 5/100),
      (''MaxLongTailAreaRatio'', 3/10),
      (''MinLongTailAreaRatio'', 1/100),
      (''InitialLongTailSlopeRatio'', 20),
      (''MaxLongTailSlopeRatio'', 50),
      (''MinLongTailSlopeRatio'', 5),
      (''MinGaussHeight4StepTail'', 5000),
      (''InitialStepTailHeightRatio'', 2/1000),
      (''MaxStepTailHeightRatio'', 1/100),
      (''MinStepTailHeightRatio'', 1/10000),
      (''HypermetQuotedPositionFlag'', 1),
      (''DeltaPositionFwhmUnits'', 1/2),
      (''SameSlopeRatioFlag'', 1),
      (''SameAreaRatioFlag'', 1)]"

text \<open>
  Dictionaries are objects: a variable or an attribute holds a reference, and an
  assignment through one reference is seen through every other. The store maps each
  reference to the dictionary it denotes; \<open>DEFAULTS_ref\<close> is the reference the module
  binds to the name \<open>SPECFITFUNCTIONS_DEFAULTS\<close>.
\<close>

type_synonym ref = nat

type_synonym store = "ref \<Rightarrow> (string \<times> real) list"

definition DEFAULTS_ref :: ref where
  "DEFAULTS_ref = 0"

definition module_store :: store where
  "module_store = (\<lambda>_. [])(DEFAULTS_ref := SPECFITFUNCTIONS_DEFAULTS)"

text \<open>An instance has the single attribute \<open>config\<close>, a reference to a dictionary.\<close>

record SpecfitFunctions =
  config :: ref

text \<open>
  \<open>__init__\<close>: \<open>self.config = SPECFITFUNCTIONS_DEFAULTS\<close> when \<open>config\<close> is \<open>None\<close>, else
  \<open>self.config = config\<close>. Neither assignment copies.
\<close>

definition SpecfitFunctions_init :: "ref option \<Rightarrow> SpecfitFunctions" where
  "SpecfitFunctions_init cfg =
     (case cfg of None \<Rightarrow> \<lparr>config = DEFAULTS_ref\<rparr> | Some r \<Rightarrow> \<lparr>config = r\<rparr>)"

subsection \<open>configure\<close>

text \<open>\<open>str.lower()\<close>, on ASCII.\<close>

definition lower_char :: "char \<Rightarrow> char" where
  "lower_char c =
     (if 65 \<le> (of_char c :: nat) \<and> (of_char c :: nat) \<le> 90
      then char_of ((of_char c :: nat) + 32) else c)"

definition lower :: "string \<Rightarrow> string" where
  "lower s = map lower_char s"

text \<open>
  One round of the outer loop of \<open>configure\<close>: every key of the dictionary that equals
  \<open>key\<close> up to case receives the value; when there is none (\<open>notdone\<close>), the key is
  added as written.
\<close>

definition configure_key :: "(string \<times> 'v) list \<Rightarrow> string \<Rightarrow> 'v \<Rightarrow> (string \<times> 'v) list" where
  "configure_key d key v =
     (let d' = map (\<lambda>(config_key, old).
                      if lower config_key = lower key then (config_key, v) else (config_key, old)) d;
          notdone = (list_all (\<lambda>config_key. lower config_key \<noteq> lower key) (map fst d))
      in if notdone then dict_set d' key v else d')"

fun configure_dict :: "(string \<times> 'v) list \<Rightarrow> (string \<times> 'v) list \<Rightarrow> (string \<times> 'v) list" where
  "configure_dict d [] = d"
| "configure_dict d ((key, v) # kw) = configure_dict (configure_key d key v) kw"

text \<open>
  \<open>configure(**kw)\<close> assigns into the dictionary \<open>self.config\<close> refers to and returns
  that reference.
\<close>

definition configure :: "SpecfitFunctions \<Rightarrow> (string \<times> real) list \<Rightarrow> store \<Rightarrow> ref \<times> store" where
  "configure self kw h =
     (config self, h(config self := configure_dict (h (config self)) kw))"

subsection \<open>estimate\_height\_position\_fwhm\<close>

text \<open>
  What the method takes from outside the two modules: \<open>peak_search\<close> and \<open>guess_fwhm\<close>
  of silx.math.fit.peaks and \<open>leastsq\<close> of silx.math.fit.leastsq (called with
  \<open>functions.sum_gauss\<close>, the working arrays, the seeds and the constraints of the
  pre-fit, and \<open>max_iter=4\<close>; only its first result is used).
\<close>

record externals =
  ext_peak_search :: "real list \<Rightarrow> int \<Rightarrow> real \<Rightarrow> nat list"
  ext_guess_fwhm :: "real list \<Rightarrow> int"
  ext_leastsq :: "real list \<Rightarrow> real list \<Rightarrow> real list \<Rightarrow> real list list \<Rightarrow> real list"

text \<open>
  Lines 301-307: \<open>yscaling\<close> from the argument or, when it is \<open>None\<close>, from the
  configuration (1.0 when the key is missing); a zero becomes 1.0.
\<close>

definition resolve_yscaling :: "real option \<Rightarrow> (string \<times> real) list \<Rightarrow> real" where
  "resolve_yscaling yscaling cfg =
     (let ys = (case yscaling of
                  None \<Rightarrow> (case dict_get cfg ''Yscaling'' of Inl _ \<Rightarrow> 1 | Inr v \<Rightarrow> v)
                | Some v \<Rightarrow> v)
      in if ys = 0 then 1 else ys)"

text \<open>
  Lines 314-326: the FWHM and the sensitivity of the peak search. The three subscripts of
  \<open>self.config\<close> are evaluated before any assignment, so a missing key raises with the
  dictionary untouched. The result carries the dictionary as the two assignments leave it.
\<close>

definition search_parameters ::
  "externals \<Rightarrow> real list \<Rightarrow> (string \<times> real) list
     \<Rightarrow> py_error + (int \<times> real \<times> (string \<times> real) list)" where
  "search_parameters ext y cfg =
     pbind (dict_get cfg ''AutoFwhm'') (\<lambda>auto_fwhm.
     pbind (if truthy auto_fwhm then Inr (ext_guess_fwhm ext y)
            else pbind (dict_get cfg ''FwhmPoints'') (\<lambda>v. Inr (py_int v))) (\<lambda>search_fwhm.
     pbind (dict_get cfg ''Sensitivity'') (\<lambda>search_sens.
       (let (search_fwhm1, cfg1) =
               (if search_fwhm < 3 then (3, dict_set cfg ''FwhmPoints'' 3)
                else (search_fwhm, cfg));
            (search_sens1, cfg2) =
               (if search_sens < 1 then (1, dict_set cfg1 ''Sensitivity'' 1)
                else (search_sens, cfg1))
        in Inr (search_fwhm1, search_sens1, cfg2)))))"

text \<open>
  numpy's elementwise \<open>a - b\<close> on 1-d arrays: equal lengths, or one operand of length 1
  that is broadcast; anything else raises ValueError.
\<close>

definition arr_sub :: "real list \<Rightarrow> real list \<Rightarrow> py_error + real list" where
  "arr_sub a b =
     (if length a = length b then Inr (map2 (\<lambda>u v. u - v) a b)
      else if length b = 1 then Inr (map (\<lambda>u. u - hd b) a)
      else if length a = 1 then Inr (map (\<lambda>v. hd a - v) b)
      else Inl ValueError)"

text \<open>
  Lines 328-344: the indices of the peaks. The search runs on \<open>yscaling * fabs(y)\<close> when
  there are more than \<open>1.5 * search_fwhm\<close> points. With no peak and \<open>ForcePeakPresence\<close>
  set, the peak is the index of the maximum of \<open>y - bg\<close>: \<open>max\<close> of an empty array
  raises ValueError, and \<open>int\<close> of an index array with more than one element (a maximum
  reached twice) raises TypeError.
\<close>

definition find_peaks ::
  "externals \<Rightarrow> (string \<times> real) list \<Rightarrow> real list \<Rightarrow> real list \<Rightarrow> real \<Rightarrow> int \<Rightarrow> real
     \<Rightarrow> py_error + nat list" where
  "find_peaks ext cfg y bg yscaling search_fwhm search_sens =
     (let npoints = length y;
          peaks = (if real npoints > 3 / 2 * real_of_int search_fwhm
                   then ext_peak_search ext (map (\<lambda>v. yscaling * \<bar>v\<bar>) y) search_fwhm search_sens
                   else [])
      in if peaks = []
         then
           (let forcePeak = py_int (case map_of cfg ''ForcePeakPresence'' of
                                      None \<Rightarrow> 0 | Some v \<Rightarrow> v)
            in if forcePeak \<noteq> 0
               then pbind (arr_sub y bg) (\<lambda>delta.
                      if delta = [] then Inl ValueError
                      else (case filter (\<lambda>i. delta ! i = Max (set delta)) [0..<length delta] of
                              [i] \<Rightarrow> Inr [i]
                            | _ \<Rightarrow> Inl TypeError))
               else Inr [])
         else Inr peaks)"

text \<open>
  Lines 358-365: the loop over \<open>peaks[1:]\<close>. The state is \<open>param\<close>,
  \<open>height_largest_peak\<close>, \<open>index_largest_peak\<close> and \<open>peak_index\<close>.
\<close>

fun seed_loop ::
  "real list \<Rightarrow> real list \<Rightarrow> real list \<Rightarrow> real \<Rightarrow> nat list
     \<Rightarrow> real list \<times> real \<times> nat \<times> nat \<Rightarrow> py_error + (real list \<times> real \<times> nat \<times> nat)" where
  "seed_loop x y bg sig [] st = Inr st"
| "seed_loop x y bg sig (i # rest) (param, height_largest_peak, index_largest_peak, peak_index) =
     pbind (py_nth y i) (\<lambda>yi.
     pbind (py_nth bg i) (\<lambda>bi.
     pbind (py_nth x i) (\<lambda>xi.
       (let param2 = [yi - bi, xi, sig]
        in seed_loop x y bg sig rest
             (if param2 ! 0 > height_largest_peak
              then (param @ param2, param2 ! 0, peak_index, peak_index + 1)
              else (param @ param2, height_largest_peak, index_largest_peak, peak_index + 1))))))"

text \<open>
  Lines 347-365, entered when \<open>peaks\<close> is not empty: the seeds \<open>param\<close> (height above the
  background, position, and five sampling intervals as FWHM, for every peak) and
  \<open>index_largest_peak\<close>. Reached from the estimator, \<open>y\<close> is not empty; on an empty \<open>y\<close>
  the expression \<open>x[npoints - 1]\<close> is \<open>x[-1]\<close> and the division is by zero.
\<close>

definition seed_parameters ::
  "real list \<Rightarrow> real list \<Rightarrow> real list \<Rightarrow> nat list \<Rightarrow> py_error + (real list \<times> nat)" where
  "seed_parameters x y bg peaks =
     (let npoints = length y
      in if npoints = 0 then Inl (if x = [] then IndexError else ZeroDivisionError)
         else
           pbind (py_nth x (npoints - 1)) (\<lambda>xlast.
           pbind (py_nth x 0) (\<lambda>xfirst.
             (let sig = 5 * \<bar>xlast - xfirst\<bar> / real npoints
              in pbind (py_nth x (hd peaks)) (\<lambda>peakpos0.
                   (let peakpos = (if \<bar>peakpos0\<bar> < 1 / 10 ^ 16 then 0 else peakpos0)
                    in pbind (py_nth y (hd peaks)) (\<lambda>y0.
                       pbind (py_nth bg (hd peaks)) (\<lambda>b0.
                       pbind (seed_loop x y bg sig (tl peaks) ([y0 - b0, peakpos, sig], y0 - b0, 0, 1))
                         (\<lambda>(param, height_largest_peak, index_largest_peak, peak_index).
                            Inr (param, index_largest_peak))))))))))"

text \<open>\<open>numpy.resize(a, (n, 1))\<close>: the first \<open>n\<close> elements of \<open>a\<close> repeated.\<close>

definition np_resize :: "real list \<Rightarrow> nat \<Rightarrow> real list" where
  "np_resize a n = take n (concat (replicate n a))"

text \<open>
  Lines 371-392: the constraints of the pre-fit, one row \<open>[code, c1, c2]\<close> per seed:
  heights and FWHMs positive, positions quoted within half of \<open>fwhmx\<close> around the seed.
  When there are no more than \<open>search_fwhm\<close> points, the source calls \<open>numpy.ones\<close> with
  an array of floats for a shape, which raises TypeError.
\<close>

definition prefit_constraints :: "real list \<Rightarrow> real list \<Rightarrow> int \<Rightarrow> py_error + real list list" where
  "prefit_constraints xw param search_fwhm =
     (if int (length xw) > search_fwhm
      then
        pbind (py_nth xw (nat search_fwhm)) (\<lambda>xf.
        pbind (py_nth xw 0) (\<lambda>x0.
          (let fwhmx = \<bar>xf - x0\<bar>
           in Inr (map (\<lambda>k. if k mod 3 = 0 then [CPOSITIVE, 0, 0]
                             else if k mod 3 = 1
                               then [CQUOTED, param ! k - 1 / 2 * fwhmx, param ! k + 1 / 2 * fwhmx]
                             else [CPOSITIVE, 0, 0])
                     [0..<length param]))))
      else Inl TypeError)"

text \<open>
  \<open>cons[k, 0] = a; cons[k, 1] = b; cons[k, 2] = c\<close> on the 2-d array \<open>cons\<close>: the first of
  the three assignments raises IndexError when there is no row \<open>k\<close>.
\<close>

definition set_row :: "real list list \<Rightarrow> nat \<Rightarrow> real list \<Rightarrow> py_error + real list list" where
  "set_row cons k row = (if k < length cons then Inr (cons[k := row]) else Inl IndexError)"

text \<open>\<open>min(x)\<close> and \<open>max(x)\<close>: ValueError on an empty sequence.\<close>

definition py_min :: "real list \<Rightarrow> py_error + real" where
  "py_min x = (if x = [] then Inl ValueError else Inr (Min (set x)))"

definition py_max :: "real list \<Rightarrow> py_error + real" where
  "py_max x = (if x = [] then Inl ValueError else Inr (Max (set x)))"

text \<open>
  Lines 403-430: the body of the loop \<open>for i in range(len(peaks))\<close>, in its three
  commented parts. Each takes \<open>cons\<close> and the current \<open>peak_index\<close> and gives the
  array as its assignments leave it.
\<close>

text \<open>Lines 403-409, "Setup height area constrains".\<close>

definition height_constraint ::
  "(string \<times> real) list \<Rightarrow> real list list \<Rightarrow> nat \<Rightarrow> py_error + real list list" where
  "height_constraint cfg cons peak_index =
     pbind (dict_get cfg ''NoConstraintsFlag'') (\<lambda>nc.
       if \<not> truthy nc
       then pbind (dict_get cfg ''PositiveHeightAreaFlag'') (\<lambda>f.
              if truthy f then set_row cons peak_index [CPOSITIVE, 0, 0] else Inr cons)
       else Inr cons)"

text \<open>Lines 411-417, "Setup position constrains".\<close>

definition position_constraint ::
  "(string \<times> real) list \<Rightarrow> real list \<Rightarrow> real list list \<Rightarrow> nat \<Rightarrow> py_error + real list list" where
  "position_constraint cfg x cons peak_index =
     pbind (dict_get cfg ''NoConstraintsFlag'') (\<lambda>nc.
       if \<not> truthy nc
       then pbind (dict_get cfg ''QuotedPositionFlag'') (\<lambda>f.
              if truthy f
              then pbind (py_min x) (\<lambda>lo.
                   pbind (py_max x) (\<lambda>hi.
                     set_row cons peak_index [CQUOTED, lo, hi]))
              else Inr cons)
       else Inr cons)"

text \<open>Lines 419-430, "Setup positive FWHM constrains", with the \<open>SameFwhmFlag\<close> link.\<close>

definition fwhm_constraint ::
  "(string \<times> real) list \<Rightarrow> nat \<Rightarrow> nat \<Rightarrow> real list list \<Rightarrow> nat \<Rightarrow> py_error + real list list" where
  "fwhm_constraint cfg index_largest_peak i cons peak_index =
     pbind (dict_get cfg ''NoConstraintsFlag'') (\<lambda>nc.
       if \<not> truthy nc
       then pbind (dict_get cfg ''PositiveFwhmFlag'') (\<lambda>f.
            pbind (if truthy f then set_row cons peak_index [CPOSITIVE, 0, 0]
                   else Inr cons) (\<lambda>cons1.
            pbind (dict_get cfg ''SameFwhmFlag'') (\<lambda>g.
              if truthy g
              then (if i \<noteq> index_largest_peak
                    then set_row cons1 peak_index
                           [CFACTOR, real (3 * index_largest_peak + 2), 1]
                    else Inr cons1)
              else Inr cons1)))
       else Inr cons)"

text \<open>One round of the loop, on the state \<open>(cons, peak_index)\<close>.\<close>

definition peak_constraints ::
  "(string \<times> real) list \<Rightarrow> real list \<Rightarrow> nat \<Rightarrow> nat \<Rightarrow> real list list \<times> nat
     \<Rightarrow> py_error + (real list list \<times> nat)" where
  "peak_constraints cfg x index_largest_peak i st =
     (case st of (cons, peak_index) \<Rightarrow>
        pbind (height_constraint cfg cons peak_index) (\<lambda>cons1.
        pbind (position_constraint cfg x cons1 (peak_index + 1)) (\<lambda>cons2.
        pbind (fwhm_constraint cfg index_largest_peak i cons2 (peak_index + 2)) (\<lambda>cons3.
          Inr (cons3, peak_index + 3)))))"

fun constraints_loop ::
  "(string \<times> real) list \<Rightarrow> real list \<Rightarrow> nat \<Rightarrow> nat list \<Rightarrow> real list list \<times> nat
     \<Rightarrow> py_error + (real list list \<times> nat)" where
  "constraints_loop cfg x index_largest_peak [] st = Inr st"
| "constraints_loop cfg x index_largest_peak (i # rest) st =
     pbind (peak_constraints cfg x index_largest_peak i st)
       (constraints_loop cfg x index_largest_peak rest)"

text \<open>
  Lines 400-432: \<open>cons = numpy.zeros((len(fittedpar), 3))\<close>, then the loop over the peaks.
\<close>

definition final_constraints ::
  "(string \<times> real) list \<Rightarrow> real list \<Rightarrow> nat \<Rightarrow> nat \<Rightarrow> nat \<Rightarrow> py_error + real list list" where
  "final_constraints cfg x index_largest_peak npeaks nfitted =
     pbind (constraints_loop cfg x index_largest_peak [0..<npeaks]
              (replicate nfitted [0, 0, 0], 0))
       (\<lambda>(cons, peak_index). Inr cons)"

text \<open>
  The whole method. It returns \<open>(fittedpar, cons)\<close> or raises, and in both cases leaves
  \<open>self.config\<close> as \<open>search_parameters\<close> assigned it: the second component.
\<close>

definition estimate_height_position_fwhm ::
  "externals \<Rightarrow> (string \<times> real) list \<Rightarrow> real list \<Rightarrow> real list \<Rightarrow> real list option
     \<Rightarrow> real option
     \<Rightarrow> (py_error + (real list \<times> real list list)) \<times> (string \<times> real) list" where
  "estimate_height_position_fwhm ext cfg x y bg_arg yscaling_arg =
     (let yscaling = resolve_yscaling yscaling_arg cfg;
          bg = (case bg_arg of None \<Rightarrow> map (\<lambda>_. 0) y | Some b \<Rightarrow> b)
      in case search_parameters ext y cfg of
           Inl e \<Rightarrow> (Inl e, cfg)
         | Inr (search_fwhm, search_sens, cfg') \<Rightarrow>
             (pbind (find_peaks ext cfg' y bg yscaling search_fwhm search_sens) (\<lambda>peaks.
              pbind (if peaks \<noteq> []
                     then
                       pbind (seed_parameters x y bg peaks) (\<lambda>(param, index_largest_peak).
                       pbind (arr_sub y bg) (\<lambda>d.
                         (let xw = np_resize x (length y);
                              yw = np_resize d (length y)
                          in pbind (prefit_constraints xw param search_fwhm) (\<lambda>cons.
                               Inr (ext_leastsq ext xw yw param cons, index_largest_peak)))))
                     else Inr ([], 0)) (\<lambda>(fittedpar, index_largest_peak).
              pbind (final_constraints cfg' x index_largest_peak (length peaks) (length fittedpar))
                (\<lambda>cons. Inr (fittedpar, cons)))),
              cfg'))"

subsection \<open>The area estimators\<close>

text \<open>
  The loops \<open>for i in range(npeaks)\<close> of \<open>estimate_agauss\<close> and \<open>estimate_alorentz\<close>:
  \<open>fittedpar[3 * i]\<close> is replaced, in place, by the area computed from the height and
  from \<open>fittedpar[3 * i + 2]\<close>.
\<close>

fun agauss_loop :: "nat list \<Rightarrow> real list \<Rightarrow> real list" where
  "agauss_loop [] fittedpar = fittedpar"
| "agauss_loop (i # rest) fittedpar =
     (let height = fittedpar ! (3 * i);
          fwhm = fittedpar ! (3 * i + 2)
      in agauss_loop rest
           (fittedpar[3 * i := sqrt (2 * pi) * height * fwhm / (2 * sqrt (2 * ln 2))]))"

fun alorentz_loop :: "nat list \<Rightarrow> real list \<Rightarrow> real list" where
  "alorentz_loop [] fittedpar = fittedpar"
| "alorentz_loop (i # rest) fittedpar =
     (let height = fittedpar ! (3 * i);
          fwhm = fittedpar ! (3 * i + 2)
      in alorentz_loop rest (fittedpar[3 * i := height * fwhm * (1 / 2) * pi]))"

definition estimate_agauss ::
  "externals \<Rightarrow> (string \<times> real) list \<Rightarrow> real list \<Rightarrow> real list \<Rightarrow> real list option
     \<Rightarrow> real option
     \<Rightarrow> (py_error + (real list \<times> real list list)) \<times> (string \<times> real) list" where
  "estimate_agauss ext cfg x y bg yscaling =
     (case estimate_height_position_fwhm ext cfg x y bg yscaling of
        (Inl e, cfg') \<Rightarrow> (Inl e, cfg')
      | (Inr (fittedpar, cons), cfg') \<Rightarrow>
          (let npeaks = length fittedpar div 3
           in (Inr (agauss_loop [0..<npeaks] fittedpar, cons), cfg')))"

definition estimate_alorentz ::
  "externals \<Rightarrow> (string \<times> real) list \<Rightarrow> real list \<Rightarrow> real list \<Rightarrow> real list option
     \<Rightarrow> real option
     \<Rightarrow> (py_error + (real list \<times> real list list)) \<times> (string \<times> real) list" where
  "estimate_alorentz ext cfg x y bg yscaling =
     (case estimate_height_position_fwhm ext cfg x y bg yscaling of
        (Inl e, cfg') \<Rightarrow> (Inl e, cfg')
      | (Inr (fittedpar, cons), cfg') \<Rightarrow>
          (let npeaks = length fittedpar div 3
           in (Inr (alorentz_loop [0..<npeaks] fittedpar, cons), cfg')))"

subsection \<open>Stand-ins for the external functions, and configurations, of the examples\<close>




text \<open>
  A peak search that finds peaks at the indices 1 and 3, and the entries of the default
  configuration the estimator reads, with \<open>SameFwhmFlag\<close> set and a search FWHM of 3.
\<close>

definition two_peak_externals :: externals where
  "two_peak_externals =
     \<lparr>ext_peak_search = (\<lambda>d w sn. [1, 3]), ext_guess_fwhm = (\<lambda>y. 4),
      ext_leastsq = (\<lambda>xw yw param cons. param)\<rparr>"

definition same_fwhm_config :: "(string \<times> real) list" where
  "same_fwhm_config =
     [(''NoConstraintsFlag'', 0), (''PositiveFwhmFlag'', 1), (''PositiveHeightAreaFlag'', 1),
      (''SameFwhmFlag'', 1), (''QuotedPositionFlag'', 0), (''Yscaling'', 1),
      (''FwhmPoints'', 3), (''AutoFwhm'', 0), (''Sensitivity'', 5/2),
      (''ForcePeakPresence'', 0)]"

section \<open>Selecting a theory or a background\<close>

lemma map_of_absent: "k \<notin> fst ` set d \<Longrightarrow> map_of d k = None"
  by (simp add: map_of_eq_None_iff)

text \<open>
  C8. Selecting a theory name that is not a key of \<open>theorydict\<close>, or a background name
  that is not a key of \<open>bkgdict\<close>, raises (a KeyError) and leaves every attribute of the
  driver as it was: the selections in \<open>fitconfig\<close>, \<open>theoryfun\<close>, \<open>modelderiv\<close> and
  \<open>bkgfun\<close> included.
\<close>

theorem unknown_selection_raises_unchanged:
  "(theory \<notin> fst ` set (theorydict s) \<longrightarrow> settheory theory s = (Inl KeyError, s)) \<and>
   (bkg \<notin> fst ` set (bkgdict s) \<longrightarrow> setbackground bkg s = (Inl KeyError, s))"
  by (simp add: settheory_def setbackground_def map_of_absent)

theorem unknown_selection_raises_unchanged_witness:
  "''Gaussians'' \<notin> fst ` set (theorydict new_specfit) \<and>
   settheory ''Gaussians'' new_specfit = (Inl KeyError, new_specfit) \<and>
   ''Square Filter'' \<notin> fst ` set (bkgdict new_specfit) \<and>
   setbackground ''Square Filter'' new_specfit = (Inl KeyError, new_specfit)"
proof -
  have t: "''Gaussians'' \<notin> fst ` set (theorydict new_specfit)"
    by (simp add: new_specfit_def)
  have b: "''Square Filter'' \<notin> fst ` set (bkgdict new_specfit)"
    by (simp add: new_specfit_def init_bkgdict_def)
  from unknown_selection_raises_unchanged [of "''Gaussians''" new_specfit "''Square Filter''"] t b
  show ?thesis by blast
qed

section \<open>Replacing the data\<close>

text \<open>
  C5, as the code has it. \<open>setdata\<close> makes no length check. Without a window (\<open>xmin\<close>
  and \<open>xmax\<close> both \<open>None\<close>) it returns normally for every \<open>x\<close> and \<open>y\<close>, of equal length
  or not, and the buffers hold the sequences as given: \<open>xdata0 = xdata = x\<close>,
  \<open>ydata0 = ydata = y\<close>, and the uncertainties given or else one \<open>1\<close> per element of \<open>y\<close>.
\<close>

theorem setdata_stores_without_length_check:
  "setdata (Some x) (Some y) sg None None s =
     (Inr (),
      s\<lparr>ydata0 := y, ydata := y, xdata0 := x, xdata := x,
        sigmay0 := (case sg of None \<Rightarrow> map (\<lambda>_. 1) y | Some sv \<Rightarrow> sv),
        sigmay := (case sg of None \<Rightarrow> map (\<lambda>_. 1) y | Some sv \<Rightarrow> sv)\<rparr>)"
  by (simp add: setdata_def Let_def)

theorem setdata_stores_without_length_check_witness:
  "setdata (Some [0, 1, 2]) (Some [5, 6]) None None None new_specfit =
     (Inr (),
      new_specfit\<lparr>ydata0 := [5, 6], ydata := [5, 6], xdata0 := [0, 1, 2], xdata := [0, 1, 2],
        sigmay0 := [1, 1], sigmay := [1, 1]\<rparr>)"
  using setdata_stores_without_length_check [of "[0, 1, 2]" "[5, 6]" None new_specfit]
  by simp

text \<open>
  The claim as stated fails: with \<open>x\<close> of length 3 and \<open>y\<close> of length 2 the call
  succeeds and the buffers are replaced.
\<close>

theorem setdata_length_mismatch_counterexample:
  "length [0, 1, 2 :: real] \<noteq> length [5, 6 :: real] \<and>
   fst (setdata (Some [0, 1, 2]) (Some [5, 6]) None None None new_specfit) = Inr () \<and>
   xdata (snd (setdata (Some [0, 1, 2]) (Some [5, 6]) None None None new_specfit)) = [0, 1, 2] \<and>
   ydata (snd (setdata (Some [0, 1, 2]) (Some [5, 6]) None None None new_specfit)) = [5, 6] \<and>
   xdata new_specfit = [] \<and> ydata new_specfit = []"
  by (simp add: setdata_def Let_def new_specfit_def)

section \<open>The configuration dictionary is shared\<close>

lemma map_of_dict_set:
  "map_of (dict_set d k v) k' = (if k' = k then Some v else map_of d k')"
  by (induction d) auto

lemma dict_get_dict_set:
  "dict_get (dict_set d k v) k' = (if k' = k then Inr v else dict_get d k')"
  by (simp add: dict_get_def map_of_dict_set)

lemma map_of_relabel:
  "map_of (map (\<lambda>(c, old). if P c then (c, v) else (c, old)) d) ck =
     (if P ck then map_option (\<lambda>_. v) (map_of d ck) else map_of d ck)"
  by (induction d) auto

lemma configure_key_sets:
  "\<exists>ck. lower ck = lower key \<and> map_of (configure_key d key v) ck = Some v"
proof (cases "list_all (\<lambda>config_key. lower config_key \<noteq> lower key) (map fst d)")
  case True
  then have "map_of (configure_key d key v) key = Some v"
    by (simp add: configure_key_def Let_def map_of_dict_set)
  then show ?thesis by blast
next
  case False
  then obtain ck where ck: "ck \<in> fst ` set d" "lower ck = lower key"
    by (auto simp: list_all_iff)
  then obtain old where "map_of d ck = Some old"
    by (metis domD domI dom_map_of_conv_image_fst)
  with ck False have "map_of (configure_key d key v) ck = Some v"
    by (simp add: configure_key_def Let_def map_of_relabel)
  with ck show ?thesis by blast
qed

text \<open>
  C9. An instance constructed with \<open>config=None\<close> holds the reference of the module-level
  dictionary \<open>SPECFITFUNCTIONS_DEFAULTS\<close>, not a copy. So a \<open>configure\<close> call through one
  such instance returns that reference and assigns into the shared dictionary: what any
  default-constructed instance reads through its \<open>config\<close> afterwards is the configured
  dictionary, with the value \<open>v\<close> under a key equal to \<open>key\<close> up to case after
  \<open>configure(key=v)\<close>; dictionaries under other references are untouched.
\<close>

theorem default_config_is_shared:
  "config (SpecfitFunctions_init None) = DEFAULTS_ref \<and>
   fst (configure (SpecfitFunctions_init None) kw h) = DEFAULTS_ref \<and>
   snd (configure (SpecfitFunctions_init None) kw h) (config (SpecfitFunctions_init None)) =
     configure_dict (h DEFAULTS_ref) kw \<and>
   (\<forall>r. r \<noteq> DEFAULTS_ref \<longrightarrow> snd (configure (SpecfitFunctions_init None) kw h) r = h r) \<and>
   (\<exists>ck. lower ck = lower key \<and>
      dict_get (snd (configure (SpecfitFunctions_init None) [(key, v)] h)
                  (config (SpecfitFunctions_init None))) ck = Inr v)"
  using configure_key_sets [of key "h DEFAULTS_ref" v]
  by (auto simp: SpecfitFunctions_init_def configure_def dict_get_def)

lemma configure_key_existing:
  assumes "k \<in> fst ` set d" and "lower k = lower key"
  shows "dict_get (configure_key d key v) k = Inr v"
proof -
  from assms have nd: "\<not> list_all (\<lambda>config_key. lower config_key \<noteq> lower key) (map fst d)"
    by (auto simp: list_all_iff)
  from assms(1) obtain old where "map_of d k = Some old"
    by (metis domD domI dom_map_of_conv_image_fst)
  with assms(2) nd show ?thesis
    by (simp add: configure_key_def Let_def map_of_relabel dict_get_def)
qed

lemma lower_FwhmPoints: "lower ''FwhmPoints'' = lower ''fwhmpoints''"
  by code_simp

lemma defaults_configured:
  "dict_get (configure_dict SPECFITFUNCTIONS_DEFAULTS [(''fwhmpoints'', 12)])
             ''FwhmPoints'' = Inr 12"
proof -
  have "''FwhmPoints'' \<in> fst ` set SPECFITFUNCTIONS_DEFAULTS"
    by (simp add: SPECFITFUNCTIONS_DEFAULTS_def)
  then show ?thesis
    using configure_key_existing [OF _ lower_FwhmPoints] by simp
qed

theorem default_config_is_shared_witness:
  "config (SpecfitFunctions_init None) = DEFAULTS_ref \<and>
   dict_get (module_store (config (SpecfitFunctions_init None))) ''FwhmPoints'' = Inr 8 \<and>
   dict_get (snd (configure (SpecfitFunctions_init None) [(''fwhmpoints'', 12)] module_store)
               (config (SpecfitFunctions_init None))) ''FwhmPoints'' = Inr 12"
proof -
  have d: "dict_get SPECFITFUNCTIONS_DEFAULTS ''FwhmPoints'' = Inr 8"
    by (simp add: dict_get_def SPECFITFUNCTIONS_DEFAULTS_def)
  have m: "module_store DEFAULTS_ref = SPECFITFUNCTIONS_DEFAULTS"
    by (simp add: module_store_def)
  note t = default_config_is_shared [of "[(''fwhmpoints'', 12)]" module_store "''fwhmpoints''" 12]
  from t have c1: "config (SpecfitFunctions_init None) = DEFAULTS_ref"
    by (rule conjunct1)
  from t have c3: "snd (configure (SpecfitFunctions_init None) [(''fwhmpoints'', 12)] module_store)
      (config (SpecfitFunctions_init None)) =
     configure_dict (module_store DEFAULTS_ref) [(''fwhmpoints'', 12)]"
    by (rule conjunct1 [OF conjunct2 [OF conjunct2]])
  show ?thesis
    by (simp only: c3 m defaults_configured) (simp only: c1 m d simp_thms)
qed

section \<open>The parameters of the peak search\<close>












section \<open>Clamping is written back to the configuration\<close>

lemma estimate_config:
  "snd (estimate_height_position_fwhm ext cfg x y bg ys) =
     (case search_parameters ext y cfg of Inl e \<Rightarrow> cfg | Inr (w, sn, cfg') \<Rightarrow> cfg')"
  by (simp add: estimate_height_position_fwhm_def Let_def split: sum.splits prod.splits)




section \<open>The final constraints of the peak estimator\<close>

lemma pbind_Inr: "pbind m f = Inr r \<longleftrightarrow> (\<exists>a. m = Inr a \<and> f a = Inr r)"
  by (cases m) (simp_all add: pbind_def)

lemma set_row_Inr:
  "set_row c k r = Inr c' \<longleftrightarrow> k < length c \<and> c' = c[k := r]"
  by (auto simp: set_row_def)

lemma height_constraint_frame:
  "height_constraint cfg cons k = Inr cons' \<Longrightarrow>
     length cons' = length cons \<and> (\<forall>j. j \<noteq> k \<longrightarrow> cons' ! j = cons ! j)"
  by (auto simp: height_constraint_def pbind_Inr set_row_Inr split: if_splits)

lemma position_constraint_frame:
  "position_constraint cfg x cons k = Inr cons' \<Longrightarrow>
     length cons' = length cons \<and> (\<forall>j. j \<noteq> k \<longrightarrow> cons' ! j = cons ! j)"
  by (auto simp: position_constraint_def pbind_Inr set_row_Inr split: if_splits)

lemma fwhm_constraint_frame:
  "fwhm_constraint cfg ilp i cons k = Inr cons' \<Longrightarrow>
     length cons' = length cons \<and> (\<forall>j. j \<noteq> k \<longrightarrow> cons' ! j = cons ! j)"
  by (auto simp: fwhm_constraint_def pbind_Inr set_row_Inr split: if_splits)

lemma fwhm_constraint_row:
  assumes "fwhm_constraint cfg ilp i cons k = Inr cons'"
    and "dict_get cfg ''NoConstraintsFlag'' = Inr nc" "\<not> truthy nc"
    and "dict_get cfg ''SameFwhmFlag'' = Inr sf" "truthy sf"
    and "dict_get cfg ''PositiveFwhmFlag'' = Inr pf"
  shows "(i \<noteq> ilp \<longrightarrow> k < length cons \<and> cons' ! k = [CFACTOR, real (3 * ilp + 2), 1]) \<and>
         (i = ilp \<longrightarrow> k < length cons \<longrightarrow>
            cons' ! k = (if truthy pf then [CPOSITIVE, 0, 0] else cons ! k))"
  using assms
  by (auto simp: fwhm_constraint_def pbind_Inr set_row_Inr split: if_splits)

lemma peak_constraints_frame:
  assumes "peak_constraints cfg x ilp i (cons, pk) = Inr (cons', pk')"
  shows "pk' = pk + 3 \<and> length cons' = length cons \<and>
         (\<forall>k. k < pk \<or> pk + 3 \<le> k \<longrightarrow> cons' ! k = cons ! k)"
proof -
  from assms obtain c1 c2 where
    h: "height_constraint cfg cons pk = Inr c1"
    and p: "position_constraint cfg x c1 (pk + 1) = Inr c2"
    and f: "fwhm_constraint cfg ilp i c2 (pk + 2) = Inr cons'"
    and k: "pk' = pk + 3"
    by (auto simp: peak_constraints_def pbind_Inr)
  from height_constraint_frame [OF h] position_constraint_frame [OF p]
    fwhm_constraint_frame [OF f] k
  show ?thesis by auto
qed

lemma peak_constraints_fwhm:
  assumes "peak_constraints cfg x ilp i (cons, pk) = Inr (cons', pk')"
    and "dict_get cfg ''NoConstraintsFlag'' = Inr nc" "\<not> truthy nc"
    and "dict_get cfg ''SameFwhmFlag'' = Inr sf" "truthy sf"
    and "dict_get cfg ''PositiveFwhmFlag'' = Inr pf"
  shows "(i \<noteq> ilp \<longrightarrow> pk + 2 < length cons \<and>
            cons' ! (pk + 2) = [CFACTOR, real (3 * ilp + 2), 1]) \<and>
         (i = ilp \<longrightarrow> pk + 2 < length cons \<longrightarrow>
            cons' ! (pk + 2) = (if truthy pf then [CPOSITIVE, 0, 0] else cons ! (pk + 2)))"
proof -
  from assms(1) obtain c1 c2 where
    h: "height_constraint cfg cons pk = Inr c1"
    and p: "position_constraint cfg x c1 (pk + 1) = Inr c2"
    and f: "fwhm_constraint cfg ilp i c2 (pk + 2) = Inr cons'"
    by (auto simp: peak_constraints_def pbind_Inr)
  from height_constraint_frame [OF h] position_constraint_frame [OF p]
  have l: "length c2 = length cons" and e: "c2 ! (pk + 2) = cons ! (pk + 2)"
    by auto
  from fwhm_constraint_row [OF f assms(2-6)] l e show ?thesis by simp
qed


lemma constraints_loop_frame:
  "constraints_loop cfg x ilp js (cons, pk) = Inr (cons', pk') \<Longrightarrow>
     pk' = pk + 3 * length js \<and> length cons' = length cons \<and>
     (\<forall>k. k < pk \<or> pk + 3 * length js \<le> k \<longrightarrow> cons' ! k = cons ! k)"
proof (induction js arbitrary: cons pk)
  case Nil
  then show ?case by simp
next
  case (Cons j js)
  from Cons.prems obtain c1 p1 where
    st: "peak_constraints cfg x ilp j (cons, pk) = Inr (c1, p1)"
    and rest: "constraints_loop cfg x ilp js (c1, p1) = Inr (cons', pk')"
    by (auto simp: pbind_Inr)
  from peak_constraints_frame [OF st] Cons.IH [OF rest]
  show ?case by auto
qed

lemma constraints_loop_fwhm:
  assumes nc: "dict_get cfg ''NoConstraintsFlag'' = Inr nc" "\<not> truthy nc"
    and sf: "dict_get cfg ''SameFwhmFlag'' = Inr sf" "truthy sf"
    and pf: "dict_get cfg ''PositiveFwhmFlag'' = Inr pf"
  shows "constraints_loop cfg x ilp js (cons, pk) = Inr (cons', pk') \<Longrightarrow> n < length js \<Longrightarrow>
     (js ! n \<noteq> ilp \<longrightarrow> pk + 3 * n + 2 < length cons \<and>
        cons' ! (pk + 3 * n + 2) = [CFACTOR, real (3 * ilp + 2), 1]) \<and>
     (js ! n = ilp \<longrightarrow> pk + 3 * n + 2 < length cons \<longrightarrow>
        cons' ! (pk + 3 * n + 2) =
          (if truthy pf then [CPOSITIVE, 0, 0] else cons ! (pk + 3 * n + 2)))"
proof (induction js arbitrary: cons pk n)
  case Nil
  then show ?case by simp
next
  case (Cons j js)
  from Cons.prems(1) obtain c1 p1 where
    st: "peak_constraints cfg x ilp j (cons, pk) = Inr (c1, p1)"
    and rest: "constraints_loop cfg x ilp js (c1, p1) = Inr (cons', pk')"
    by (auto simp: pbind_Inr)
  note fr = peak_constraints_frame [OF st]
  from fr have p1: "p1 = pk + 3" and l1: "length c1 = length cons" by simp_all
  note fr2 = constraints_loop_frame [OF rest]
  show ?case
  proof (cases n)
    case 0
    from fr2 p1 have "cons' ! (pk + 2) = c1 ! (pk + 2)" by simp
    with peak_constraints_fwhm [OF st nc sf pf] 0 show ?thesis by simp
  next
    case (Suc m)
    with Cons.prems(2) have m: "m < length js" by simp
    from fr have e: "c1 ! (pk + 3 + 3 * m + 2) = cons ! (pk + 3 + 3 * m + 2)" by simp
    have a: "pk + 3 * Suc m + 2 = pk + 3 + 3 * m + 2" by simp
    from Cons.IH [OF rest [unfolded p1] m] l1 e Suc show ?thesis
      by (simp only: a nth_Cons_Suc)
  qed
qed

lemma nth_upt0: "n < m \<Longrightarrow> [0..<m] ! n = n"
  by simp

lemma final_constraints_same_fwhm:
  assumes nc: "dict_get cfg ''NoConstraintsFlag'' = Inr nc" "\<not> truthy nc"
    and sf: "dict_get cfg ''SameFwhmFlag'' = Inr sf" "truthy sf"
    and pf: "dict_get cfg ''PositiveFwhmFlag'' = Inr pf"
    and fc: "final_constraints cfg x ilp npeaks nfitted = Inr cons"
    and i: "i < npeaks"
  shows "length cons = nfitted \<and>
         (i \<noteq> ilp \<longrightarrow> 3 * i + 2 < nfitted \<and> cons ! (3 * i + 2) = [CFACTOR, real (3 * ilp + 2), 1]) \<and>
         (i = ilp \<longrightarrow> 3 * i + 2 < nfitted \<longrightarrow>
            cons ! (3 * i + 2) = (if truthy pf then [CPOSITIVE, 0, 0] else [CFREE, 0, 0]))"
proof -
  from fc obtain pk' where
    l: "constraints_loop cfg x ilp [0..<npeaks] (replicate nfitted [0, 0, 0], 0) = Inr (cons, pk')"
    by (auto simp: final_constraints_def pbind_Inr)
  from i have n: "i < length [0..<npeaks]" by simp
  from constraints_loop_frame [OF l] have len: "length cons = nfitted" by simp
  from constraints_loop_fwhm [OF nc sf pf l n] i len show ?thesis
    by (simp add: CFREE_def)
qed


lemma py_nth_Inr: "py_nth xs i = Inr v \<longleftrightarrow> i < length xs \<and> v = xs ! i"
  by (auto simp: py_nth_def)

lemma seed_loop_largest:
  "seed_loop x y bg sig rest (param, hl, il, pk) = Inr (param', hl', il', pk') \<Longrightarrow>
   length done = pk \<Longrightarrow> il < pk \<Longrightarrow> hl = y ! (done ! il) - bg ! (done ! il) \<Longrightarrow>
   \<forall>j<pk. y ! (done ! j) - bg ! (done ! j) \<le> hl \<Longrightarrow>
   \<forall>j<il. y ! (done ! j) - bg ! (done ! j) < hl \<Longrightarrow>
   length param = 3 * pk \<Longrightarrow>
     length param' = 3 * (pk + length rest) \<and> il' < pk + length rest \<and>
     (\<forall>j<pk + length rest.
        y ! ((done @ rest) ! j) - bg ! ((done @ rest) ! j)
          \<le> y ! ((done @ rest) ! il') - bg ! ((done @ rest) ! il')) \<and>
     (\<forall>j<il'.
        y ! ((done @ rest) ! j) - bg ! ((done @ rest) ! j)
          < y ! ((done @ rest) ! il') - bg ! ((done @ rest) ! il'))"
proof (induction rest arbitrary: param hl il pk "done")
  case Nil
  then show ?case by simp
next
  case (Cons i rest)
  let ?h = "\<lambda>p. y ! p - bg ! p"
  let ?done = "done @ [i]"
  from Cons.prems(1) have rng: "i < length y" "i < length bg" "i < length x"
    by (auto simp: pbind_Inr py_nth_Inr)
  have app: "(done @ i # rest) = (?done @ rest)" by simp
  have len: "length ?done = pk + 1" using Cons.prems(2) by simp
  have dn: "?done ! pk = i" using Cons.prems(2) [symmetric] by simp
  show ?case
  proof (cases "?h i > hl")
    case True
    with Cons.prems(1) have run:
      "seed_loop x y bg sig rest (param @ [?h i, x ! i, sig], ?h i, pk, pk + 1) =
         Inr (param', hl', il', pk')"
      by (auto simp: pbind_Inr py_nth_Inr)
    have a1: "pk < pk + 1" by simp
    have a2: "?h i = ?h (?done ! pk)" by (simp only: dn)
    have a3: "\<forall>j<pk + 1. ?h (?done ! j) \<le> ?h i"
    proof (intro allI impI)
      fix j assume "j < pk + 1"
      then consider "j < pk" | "j = pk" by linarith
      then show "?h (?done ! j) \<le> ?h i"
      proof cases
        case 1
        with Cons.prems(2,5) True show ?thesis by (simp add: nth_append) (smt (verit))
      next
        case 2
        then show ?thesis by (simp add: dn)
      qed
    qed
    have a4: "\<forall>j<pk. ?h (?done ! j) < ?h i"
      using Cons.prems(2,5) True by (simp add: nth_append) (smt (verit))
    have a5: "length (param @ [?h i, x ! i, sig]) = 3 * (pk + 1)"
      using Cons.prems(7) by simp
    from Cons.IH [OF run len a1 a2 a3 a4 a5] show ?thesis
      by (simp only: app) simp
  next
    case False
    with Cons.prems(1) have run:
      "seed_loop x y bg sig rest (param @ [?h i, x ! i, sig], hl, il, pk + 1) =
         Inr (param', hl', il', pk')"
      by (auto simp: pbind_Inr py_nth_Inr)
    have a1: "il < pk + 1" using Cons.prems(3) by simp
    have a2: "hl = ?h (?done ! il)" using Cons.prems(2,3,4) by (simp add: nth_append)
    have a3: "\<forall>j<pk + 1. ?h (?done ! j) \<le> hl"
    proof (intro allI impI)
      fix j assume "j < pk + 1"
      then consider "j < pk" | "j = pk" by linarith
      then show "?h (?done ! j) \<le> hl"
      proof cases
        case 1
        with Cons.prems(2,5) show ?thesis by (simp add: nth_append)
      next
        case 2
        with False show ?thesis by (simp add: dn)
      qed
    qed
    have a4: "\<forall>j<il. ?h (?done ! j) < hl"
      using Cons.prems(2,3,6) by (simp add: nth_append)
    have a5: "length (param @ [?h i, x ! i, sig]) = 3 * (pk + 1)"
      using Cons.prems(7) by simp
    from Cons.IH [OF run len a1 a2 a3 a4 a5] show ?thesis
      by (simp only: app) simp
  qed
qed

lemma seed_parameters_largest:
  assumes "seed_parameters x y bg peaks = Inr (param, ilp)" and "peaks \<noteq> []"
  shows "length param = 3 * length peaks \<and> ilp < length peaks \<and>
     (\<forall>j<length peaks. y ! (peaks ! j) - bg ! (peaks ! j) \<le> y ! (peaks ! ilp) - bg ! (peaks ! ilp)) \<and>
     (\<forall>j<ilp. y ! (peaks ! j) - bg ! (peaks ! j) < y ! (peaks ! ilp) - bg ! (peaks ! ilp))"
proof -
  from assms(2) obtain p0 rest where pk: "peaks = p0 # rest" by (cases peaks) auto
  from assms(1) obtain sig pos param' hl' pk' where
    run: "seed_loop x y bg sig rest ([y ! p0 - bg ! p0, pos, sig], y ! p0 - bg ! p0, 0, 1) =
            Inr (param, hl', ilp, pk')"
    by (auto simp: seed_parameters_def Let_def pbind_Inr py_nth_Inr pk split: if_splits)
  from seed_loop_largest [OF run, of "[p0]"] show ?thesis
    by (simp add: pk)
qed


lemma search_parameters_keeps:
  assumes "search_parameters ext y cfg = Inr (w, sn, cfg')"
    and "k \<noteq> ''FwhmPoints''" "k \<noteq> ''Sensitivity''"
  shows "dict_get cfg' k = dict_get cfg k"
  using assms
  by (auto simp: search_parameters_def pbind_Inr Let_def dict_get_dict_set split: if_splits)

lemma estimate_Inr:
  assumes "estimate_height_position_fwhm ext cfg x y bg ys = (Inr (fittedpar, cons), cfg')"
    and "bgv = (case bg of None \<Rightarrow> map (\<lambda>_. 0) y | Some b \<Rightarrow> b)"
  shows "\<exists>w sn peaks ilp.
      search_parameters ext y cfg = Inr (w, sn, cfg') \<and>
      find_peaks ext cfg' y bgv (resolve_yscaling ys cfg) w sn = Inr peaks \<and>
      (peaks \<noteq> [] \<longrightarrow>
         (\<exists>param d pc. seed_parameters x y bgv peaks = Inr (param, ilp) \<and>
            arr_sub y bgv = Inr d \<and>
            prefit_constraints (np_resize x (length y)) param w = Inr pc \<and>
            fittedpar = ext_leastsq ext (np_resize x (length y)) (np_resize d (length y)) param pc)) \<and>
      (peaks = [] \<longrightarrow> fittedpar = [] \<and> ilp = 0) \<and>
      final_constraints cfg' x ilp (length peaks) (length fittedpar) = Inr cons"
proof (cases "search_parameters ext y cfg")
  case (Inl e)
  with assms(1) show ?thesis
    by (simp add: estimate_height_position_fwhm_def)
next
  case (Inr r)
  obtain w sn c where r: "r = (w, sn, c)" by (cases r) auto
  from assms(1) Inr r have c: "c = cfg'"
    using estimate_config [of ext cfg x y bg ys] by simp
  from assms Inr r c obtain peaks fp ilp where
    fp: "find_peaks ext cfg' y bgv (resolve_yscaling ys cfg) w sn = Inr peaks"
    and mid: "(if peaks \<noteq> []
        then pbind (seed_parameters x y bgv peaks) (\<lambda>(param, index_largest_peak).
             pbind (arr_sub y bgv) (\<lambda>d.
               (let xw = np_resize x (length y); yw = np_resize d (length y)
                in pbind (prefit_constraints xw param w) (\<lambda>cons.
                     Inr (ext_leastsq ext xw yw param cons, index_largest_peak)))))
        else Inr ([], 0)) = Inr (fp, ilp)"
    and fin: "pbind (final_constraints cfg' x ilp (length peaks) (length fp))
                (\<lambda>cons. Inr (fp, cons)) = Inr (fittedpar, cons)"
    by (auto simp: estimate_height_position_fwhm_def Let_def pbind_Inr)
  from fin have e: "fp = fittedpar"
    and fc: "final_constraints cfg' x ilp (length peaks) (length fittedpar) = Inr cons"
    by (auto simp: pbind_Inr)
  show ?thesis
  proof (cases "peaks = []")
    case True
    with mid e have "fittedpar = []" "ilp = 0" by simp_all
    with Inr r c fp fc True show ?thesis by auto
  next
    case False
    with mid e obtain param d pc where
      "seed_parameters x y bgv peaks = Inr (param, ilp)" "arr_sub y bgv = Inr d"
      "prefit_constraints (np_resize x (length y)) param w = Inr pc"
      "fittedpar = ext_leastsq ext (np_resize x (length y)) (np_resize d (length y)) param pc"
      by (auto simp: pbind_Inr Let_def)
    with Inr r c fp fc False show ?thesis by auto
  qed
qed


text \<open>
  C2. Take a call of \<open>estimate_height_position_fwhm\<close> that returns, with
  \<open>SameFwhmFlag\<close> set and \<open>NoConstraintsFlag\<close> unset, and a least-squares routine that
  returns as many parameters as it is given seeds. Then there are three fitted parameters
  and three constraint rows per detected peak; \<open>index_largest_peak\<close> is the first peak
  whose height above the background is the largest; the FWHM row of every other peak \<open>i\<close>
  (row \<open>3 * i + 2\<close>) is \<open>[CFACTOR, 3 * index_largest_peak + 2, 1.0]\<close>; and the FWHM row of
  the largest peak keeps \<open>CPOSITIVE\<close> when \<open>PositiveFwhmFlag\<close> is set and \<open>CFREE\<close>
  otherwise.
\<close>

theorem same_fwhm_links_to_largest_peak:
  assumes lsq: "\<forall>xw yw p c. length (ext_leastsq ext xw yw p c) = length p"
    and nc: "dict_get cfg ''NoConstraintsFlag'' = Inr nc" "\<not> truthy nc"
    and sf: "dict_get cfg ''SameFwhmFlag'' = Inr sf" "truthy sf"
    and pf: "dict_get cfg ''PositiveFwhmFlag'' = Inr pf"
    and est: "estimate_height_position_fwhm ext cfg x y bg ys = (Inr (fittedpar, cons), cfg')"
    and bgv: "bgv = (case bg of None \<Rightarrow> map (\<lambda>_. 0) y | Some b \<Rightarrow> b)"
  shows "\<exists>w sn peaks ilp.
      search_parameters ext y cfg = Inr (w, sn, cfg') \<and>
      find_peaks ext cfg' y bgv (resolve_yscaling ys cfg) w sn = Inr peaks \<and>
      length fittedpar = 3 * length peaks \<and> length cons = 3 * length peaks \<and>
      (peaks \<noteq> [] \<longrightarrow> ilp < length peaks \<and>
         (\<forall>j<length peaks. y ! (peaks ! j) - bgv ! (peaks ! j)
                              \<le> y ! (peaks ! ilp) - bgv ! (peaks ! ilp)) \<and>
         (\<forall>j<ilp. y ! (peaks ! j) - bgv ! (peaks ! j)
                     < y ! (peaks ! ilp) - bgv ! (peaks ! ilp)) \<and>
         cons ! (3 * ilp + 2) = [if truthy pf then CPOSITIVE else CFREE, 0, 0]) \<and>
      (\<forall>i<length peaks. i \<noteq> ilp \<longrightarrow>
         cons ! (3 * i + 2) = [CFACTOR, real (3 * ilp + 2), 1])"
proof -
  from estimate_Inr [OF est bgv] obtain w sn peaks ilp where
    sp: "search_parameters ext y cfg = Inr (w, sn, cfg')"
    and fp: "find_peaks ext cfg' y bgv (resolve_yscaling ys cfg) w sn = Inr peaks"
    and ne: "peaks \<noteq> [] \<longrightarrow>
         (\<exists>param d pc. seed_parameters x y bgv peaks = Inr (param, ilp) \<and>
            arr_sub y bgv = Inr d \<and>
            prefit_constraints (np_resize x (length y)) param w = Inr pc \<and>
            fittedpar = ext_leastsq ext (np_resize x (length y)) (np_resize d (length y)) param pc)"
    and em: "peaks = [] \<longrightarrow> fittedpar = [] \<and> ilp = 0"
    and fc: "final_constraints cfg' x ilp (length peaks) (length fittedpar) = Inr cons"
    by blast
  have nc': "dict_get cfg' ''NoConstraintsFlag'' = Inr nc"
    and sf': "dict_get cfg' ''SameFwhmFlag'' = Inr sf"
    and pf': "dict_get cfg' ''PositiveFwhmFlag'' = Inr pf"
    using search_parameters_keeps [OF sp] nc(1) sf(1) pf by simp_all
  have len: "length fittedpar = 3 * length peaks"
  proof (cases "peaks = []")
    case True
    with em show ?thesis by simp
  next
    case False
    with ne obtain param d pc where
      "seed_parameters x y bgv peaks = Inr (param, ilp)"
      "fittedpar = ext_leastsq ext (np_resize x (length y)) (np_resize d (length y)) param pc"
      by blast
    with seed_parameters_largest [OF _ False] lsq show ?thesis by simp
  qed
  note F = final_constraints_same_fwhm [OF nc' nc(2) sf' sf(2) pf' fc]
  have lc: "length cons = 3 * length peaks"
  proof (cases "peaks = []")
    case True
    with fc em show ?thesis
      by (simp add: final_constraints_def pbind_def)
  next
    case False
    then have "0 < length peaks" by simp
    from F [OF this] len show ?thesis by simp
  qed
  have big: "peaks \<noteq> [] \<longrightarrow> ilp < length peaks \<and>
         (\<forall>j<length peaks. y ! (peaks ! j) - bgv ! (peaks ! j)
                              \<le> y ! (peaks ! ilp) - bgv ! (peaks ! ilp)) \<and>
         (\<forall>j<ilp. y ! (peaks ! j) - bgv ! (peaks ! j)
                     < y ! (peaks ! ilp) - bgv ! (peaks ! ilp)) \<and>
         cons ! (3 * ilp + 2) = [if truthy pf then CPOSITIVE else CFREE, 0, 0]"
  proof
    assume False: "peaks \<noteq> []"
    with ne obtain param where sd: "seed_parameters x y bgv peaks = Inr (param, ilp)"
      by blast
    note S = seed_parameters_largest [OF sd False]
    from S have il: "ilp < length peaks" by simp
    from F [OF il] len il have "cons ! (3 * ilp + 2) = [if truthy pf then CPOSITIVE else CFREE, 0, 0]"
      by simp
    with S show "ilp < length peaks \<and>
         (\<forall>j<length peaks. y ! (peaks ! j) - bgv ! (peaks ! j)
                              \<le> y ! (peaks ! ilp) - bgv ! (peaks ! ilp)) \<and>
         (\<forall>j<ilp. y ! (peaks ! j) - bgv ! (peaks ! j)
                     < y ! (peaks ! ilp) - bgv ! (peaks ! ilp)) \<and>
         cons ! (3 * ilp + 2) = [if truthy pf then CPOSITIVE else CFREE, 0, 0]"
      by blast
  qed
  have others: "\<forall>i<length peaks. i \<noteq> ilp \<longrightarrow>
         cons ! (3 * i + 2) = [CFACTOR, real (3 * ilp + 2), 1]"
    using F by blast
  from sp fp len lc big others show ?thesis by blast
qed


lemma upt_0_2: "[0..<2] = [0, Suc 0]"
  by code_simp

lemma upt_0_6: "[0..<6] = [0, 1, 2, 3, 4, 5]"
  by code_simp

lemma np_resize_same: "length a = n \<Longrightarrow> 0 < n \<Longrightarrow> np_resize a n = a"
  by (cases n) (simp_all add: np_resize_def)

lemma same_fwhm_search:
  "search_parameters two_peak_externals [1, 6, 1, 10, 1] same_fwhm_config =
     Inr (3, 5/2, same_fwhm_config)"
  by (simp add: search_parameters_def pbind_def dict_get_def same_fwhm_config_def truthy_def
      py_int_def)

lemma same_fwhm_peaks:
  "find_peaks two_peak_externals same_fwhm_config [1, 6, 1, 10, 1] [1, 1, 1, 1, 1] 1 3 (5/2) =
     Inr [Suc 0, 3]"
  by (simp add: find_peaks_def two_peak_externals_def Let_def)

lemma same_fwhm_seeds:
  "seed_parameters [0, 1, 2, 3, 4] [1, 6, 1, 10, 1] [1, 1, 1, 1, 1] [Suc 0, 3] =
     Inr ([5, 1, 4, 9, 3, 4], Suc 0)"
  by (simp add: seed_parameters_def Let_def pbind_def py_nth_def)

lemma same_fwhm_prefit:
  "prefit_constraints (np_resize [0, 1, 2, 3, 4] (length [1, 6, 1, 10, 1 :: real]))
      [5, 1, 4, 9, 3, 4] 3 =
     Inr [[1, 0, 0], [2, -1/2, 5/2], [1, 0, 0], [1, 0, 0], [2, 3/2, 9/2], [1, 0, 0]]"
  by (simp add: prefit_constraints_def np_resize_same pbind_def py_nth_def Let_def
      CPOSITIVE_def CQUOTED_def upt_0_6)

lemma same_fwhm_final:
  "final_constraints same_fwhm_config [0, 1, 2, 3, 4] (Suc 0) (length [Suc 0, 3])
      (length [5, 1, 4, 9, 3, 4 :: real]) =
     Inr [[1, 0, 0], [0, 0, 0], [4, 5, 1], [1, 0, 0], [0, 0, 0], [1, 0, 0]]"
  by (simp add: final_constraints_def peak_constraints_def height_constraint_def
      position_constraint_def fwhm_constraint_def set_row_def pbind_def dict_get_def
      same_fwhm_config_def truthy_def CPOSITIVE_def CFACTOR_def upt_0_2 eval_nat_numeral)


lemma same_fwhm_estimate:
  "estimate_height_position_fwhm two_peak_externals same_fwhm_config
      [0, 1, 2, 3, 4] [1, 6, 1, 10, 1] (Some [1, 1, 1, 1, 1]) None =
     (Inr ([5, 1, 4, 9, 3, 4],
           [[1, 0, 0], [0, 0, 0], [4, 5, 1], [1, 0, 0], [0, 0, 0], [1, 0, 0]]),
      same_fwhm_config)"
proof -
  have ys: "resolve_yscaling None same_fwhm_config = 1"
    by (simp add: resolve_yscaling_def dict_get_def same_fwhm_config_def)
  have lsq: "\<And>xw yw param cons. ext_leastsq two_peak_externals xw yw param cons = param"
    by (simp add: two_peak_externals_def)
  have sub: "arr_sub [1, 6, 1, 10, 1] [1, 1, 1, 1, 1] = Inr [0, 5, 0, 9, 0]"
    by (simp add: arr_sub_def)
  show ?thesis
    unfolding estimate_height_position_fwhm_def
    by (simp add: ys same_fwhm_search same_fwhm_peaks same_fwhm_seeds sub same_fwhm_prefit
        lsq same_fwhm_final pbind_def del: length_Cons list.size)
qed

theorem same_fwhm_links_to_largest_peak_witness:
  "(\<forall>xw yw p c. length (ext_leastsq two_peak_externals xw yw p c) = length p) \<and>
   dict_get same_fwhm_config ''NoConstraintsFlag'' = Inr 0 \<and> \<not> truthy 0 \<and>
   dict_get same_fwhm_config ''SameFwhmFlag'' = Inr 1 \<and> truthy 1 \<and>
   dict_get same_fwhm_config ''PositiveFwhmFlag'' = Inr 1 \<and>
   estimate_height_position_fwhm two_peak_externals same_fwhm_config
      [0, 1, 2, 3, 4] [1, 6, 1, 10, 1] (Some [1, 1, 1, 1, 1]) None =
     (Inr ([5, 1, 4, 9, 3, 4],
           [[1, 0, 0], [0, 0, 0], [4, 5, 1], [1, 0, 0], [0, 0, 0], [1, 0, 0]]),
      same_fwhm_config) \<and>
   (\<exists>w sn peaks ilp.
      search_parameters two_peak_externals [1, 6, 1, 10, 1] same_fwhm_config =
        Inr (w, sn, same_fwhm_config) \<and>
      find_peaks two_peak_externals same_fwhm_config [1, 6, 1, 10, 1] [1, 1, 1, 1, 1]
        (resolve_yscaling None same_fwhm_config) w sn = Inr peaks \<and>
      peaks = [1, 3] \<and> ilp = 1 \<and>
      [[1, 0, 0], [0, 0, 0], [4, 5, 1], [1, 0, 0], [0, 0, 0], [1, 0, 0 :: real]] ! (3 * 0 + 2) =
        [CFACTOR, real (3 * ilp + 2), 1])"
proof -
  have lsq: "\<forall>xw yw p c. length (ext_leastsq two_peak_externals xw yw p c) = length p"
    by (simp add: two_peak_externals_def)
  have nc: "dict_get same_fwhm_config ''NoConstraintsFlag'' = Inr 0"
    and sf: "dict_get same_fwhm_config ''SameFwhmFlag'' = Inr 1"
    and pf: "dict_get same_fwhm_config ''PositiveFwhmFlag'' = Inr 1"
    by (simp_all add: dict_get_def same_fwhm_config_def)
  have t0: "\<not> truthy 0" and t1: "truthy 1" by (simp_all add: truthy_def)
  have bgv: "[1, 1, 1, 1, 1] = (case Some [1, 1, 1, 1, 1 :: real] of
      None \<Rightarrow> map (\<lambda>_. 0) [1, 6, 1, 10, 1 :: real] | Some b \<Rightarrow> b)"
    by simp
  have ys: "resolve_yscaling None same_fwhm_config = 1"
    by (simp add: resolve_yscaling_def dict_get_def same_fwhm_config_def)
  from same_fwhm_links_to_largest_peak [OF lsq nc t0 sf t1 pf same_fwhm_estimate bgv]
  obtain w sn peaks ilp where
    sp: "search_parameters two_peak_externals [1, 6, 1, 10, 1] same_fwhm_config =
        Inr (w, sn, same_fwhm_config)"
    and fp: "find_peaks two_peak_externals same_fwhm_config [1, 6, 1, 10, 1] [1, 1, 1, 1, 1]
        (resolve_yscaling None same_fwhm_config) w sn = Inr peaks"
    and big: "peaks \<noteq> [] \<longrightarrow> ilp < length peaks \<and>
         (\<forall>j<length peaks. [1, 6, 1, 10, 1 :: real] ! (peaks ! j) - [1, 1, 1, 1, 1] ! (peaks ! j)
                              \<le> [1, 6, 1, 10, 1] ! (peaks ! ilp) - [1, 1, 1, 1, 1] ! (peaks ! ilp)) \<and>
         (\<forall>j<ilp. [1, 6, 1, 10, 1 :: real] ! (peaks ! j) - [1, 1, 1, 1, 1] ! (peaks ! j)
                     < [1, 6, 1, 10, 1] ! (peaks ! ilp) - [1, 1, 1, 1, 1] ! (peaks ! ilp)) \<and>
         [[1, 0, 0], [0, 0, 0], [4, 5, 1], [1, 0, 0], [0, 0, 0], [1, 0, 0 :: real]] ! (3 * ilp + 2)
           = [if truthy 1 then CPOSITIVE else CFREE, 0, 0]"
    and others: "\<forall>i<length peaks. i \<noteq> ilp \<longrightarrow>
         [[1, 0, 0], [0, 0, 0], [4, 5, 1], [1, 0, 0], [0, 0, 0], [1, 0, 0 :: real]] ! (3 * i + 2)
           = [CFACTOR, real (3 * ilp + 2), 1]"
    by blast
  from sp same_fwhm_search have w: "w = 3" "sn = 5/2" by simp_all
  from fp w ys same_fwhm_peaks have pk: "peaks = [1, 3]" by simp
  from big pk have il: "ilp < 2" and
    mx: "\<forall>j<2. [1, 6, 1, 10, 1 :: real] ! ([1, 3] ! j) - [1, 1, 1, 1, 1] ! ([1, 3] ! j)
                  \<le> [1, 6, 1, 10, 1] ! ([1, 3] ! ilp) - [1, 1, 1, 1, 1] ! ([1, 3] ! ilp)"
    by simp_all
  have ilp: "ilp = 1"
  proof (rule ccontr)
    assume "ilp \<noteq> 1"
    with il have z: "ilp = 0" by simp
    have "(1::nat) < 2" by simp
    from mx [rule_format, OF this] z show False by (simp add: eval_nat_numeral)
  qed
  have
    "[[1, 0, 0], [0, 0, 0], [4, 5, 1], [1, 0, 0], [0, 0, 0], [1, 0, 0 :: real]] ! (3 * 0 + 2)
       = [CFACTOR, real (3 * ilp + 2), 1]"
    using others [rule_format, of 0] pk ilp by simp
  with lsq nc sf pf t0 t1 same_fwhm_estimate sp fp pk ilp show ?thesis by blast
qed

end
